theory Spec2Isabelle
  imports Complex_Main "HOL-Library.Multiset"
begin

section \<open>Python values\<close>

subsection \<open>Floats\<close>

text \<open>
  A Python float is an IEEE 754 binary64 number. Its value is a rational, and every
  arithmetic operation returns the exact result rounded to 53 significant bits, ties to
  even. The model keeps the value as a \<open>rat\<close> and rounds after each operation with
  \<open>fl\<close>. The exponent is not bounded: overflow to infinity and subnormal numbers are
  outside the model (the scores and weights of the audit are far from either).
\<close>

type_synonym pyfloat = rat

function bit_length :: "int \<Rightarrow> int" where
  \<comment> \<open>the number of binary digits of a positive integer\<close>
  "bit_length n = (if n \<le> 0 then 0 else 1 + bit_length (n div 2))"
  by pat_completeness auto
termination
  by (relation "measure nat") auto

declare bit_length.simps [simp del]

definition binade :: "rat \<Rightarrow> int" where
  \<comment> \<open>for \<open>q \<noteq> 0\<close>, the \<open>e\<close> with \<open>2 ^ e \<le> \<bar>q\<bar> < 2 ^ (e + 1)\<close>\<close>
  "binade q =
     (let a = \<bar>q\<bar>
      in if 1 \<le> a then bit_length \<lfloor>a\<rfloor> - 1
         else - bit_length (\<lceil>1 / a\<rceil> - 1))"

definition round_half_even :: "rat \<Rightarrow> int" where
  "round_half_even q =
     (let f = \<lfloor>q\<rfloor>; r = q - of_int f
      in if r < 1 / 2 then f
         else if 1 / 2 < r then f + 1
         else if even f then f else f + 1)"

definition fl :: "rat \<Rightarrow> pyfloat" where
  \<comment> \<open>the binary64 number nearest to \<open>q\<close>\<close>
  "fl q =
     (if q = 0 then 0
      else let s = power_int 2 (binade q - 52)
           in of_int (round_half_even (q / s)) * s)"

definition fadd :: "pyfloat \<Rightarrow> pyfloat \<Rightarrow> pyfloat" where
  "fadd a b = fl (a + b)"

definition fsub :: "pyfloat \<Rightarrow> pyfloat \<Rightarrow> pyfloat" where
  "fsub a b = fl (a - b)"

definition fmul :: "pyfloat \<Rightarrow> pyfloat \<Rightarrow> pyfloat" where
  "fmul a b = fl (a * b)"

definition fdiv :: "pyfloat \<Rightarrow> pyfloat \<Rightarrow> pyfloat" where
  \<comment> \<open>\<open>a / b\<close> for \<open>b \<noteq> 0\<close>; every division of the source is by a constant or guarded\<close>
  "fdiv a b = fl (a / b)"

definition float_of_int :: "int \<Rightarrow> pyfloat" where
  \<comment> \<open>the conversion of an int operand in mixed arithmetic\<close>
  "float_of_int n = fl (of_int n)"

definition int_of_float :: "pyfloat \<Rightarrow> int" where
  \<comment> \<open>\<open>int(x)\<close>: truncation towards zero\<close>
  "int_of_float x = (if 0 \<le> x then \<lfloor>x\<rfloor> else \<lceil>x\<rceil>)"

definition py_round :: "pyfloat \<Rightarrow> int" where
  \<comment> \<open>\<open>round(x)\<close>: the nearest integer, ties to even\<close>
  "py_round x = round_half_even x"

subsection \<open>Strings\<close>

text \<open>
  A \<open>str\<close> is a sequence of code points; the model has the code points below 256, one
  \<open>char\<close> each, and \<open>str.lower\<close> and \<open>str.strip\<close> as Python defines them on that range.
\<close>

definition lower_char :: "char \<Rightarrow> char" where
  "lower_char c =
     (let n = (of_char c :: nat)
      in if (65 \<le> n \<and> n \<le> 90) \<or> (192 \<le> n \<and> n \<le> 222 \<and> n \<noteq> 215)
         then char_of (n + 32) else c)"

definition lower :: "string \<Rightarrow> string" where
  "lower s = map lower_char s"

fun startswith :: "string \<Rightarrow> string \<Rightarrow> bool" where
  "startswith s [] = True"
| "startswith [] (p # ps) = False"
| "startswith (c # cs) (p # ps) = (c = p \<and> startswith cs ps)"

fun contains :: "string \<Rightarrow> string \<Rightarrow> bool" where
  \<comment> \<open>\<open>contains s p\<close> is Python's \<open>p in s\<close>\<close>
  "contains [] p = (p = [])"
| "contains (c # cs) p = (startswith (c # cs) p \<or> contains cs p)"

definition is_space :: "char \<Rightarrow> bool" where
  "is_space c =
     (let n = (of_char c :: nat)
      in (9 \<le> n \<and> n \<le> 13) \<or> (28 \<le> n \<and> n \<le> 32) \<or> n = 133 \<or> n = 160)"

definition strip :: "string \<Rightarrow> string" where
  "strip s = rev (dropWhile is_space (rev (dropWhile is_space s)))"

fun join :: "string \<Rightarrow> string list \<Rightarrow> string" where
  "join sep [] = []"
| "join sep [x] = x"
| "join sep (x # y # ys) = x @ sep @ join sep (y # ys)"

definition replace_char :: "char \<Rightarrow> char \<Rightarrow> string \<Rightarrow> string" where
  "replace_char a b s = map (\<lambda>c. if c = a then b else c) s"

definition any_in :: "string list \<Rightarrow> string \<Rightarrow> bool" where
  \<comment> \<open>\<open>any(pattern in s for pattern in patterns)\<close>\<close>
  "any_in patterns s = list_ex (\<lambda>pattern. contains s pattern) patterns"

section \<open>StrategicSEOScorer\<close>

definition issue_severity :: "(string \<times> int) list" where
  "issue_severity =
     [(''http_5xx_error'', 100),
      (''HTTP Error'', 90),
      (''not_indexable'', 100),
      (''core_web_vitals_poor'', 95),
      (''Blocked by Robots Meta'', 100),
      (''Missing Title Tag'', 95),
      (''not_mobile_friendly'', 90),
      (''no_https'', 85),
      (''Thin Content'', 85),
      (''Duplicate Title Tags'', 80),
      (''Generic Title Tag'', 75),
      (''Missing Canonical Tag'', 75),
      (''Invalid Canonical URL'', 75),
      (''Missing Product Schema'', 70),
      (''Slow Response Time'', 80),
      (''broken_internal_links'', 75),
      (''Missing H1 Tag'', 65),
      (''Duplicate Meta Descriptions'', 50),
      (''Short Title Tag'', 55),
      (''Long Title Tag'', 50),
      (''Missing Structured Data'', 50),
      (''Insufficient Internal Links'', 45),
      (''Missing Organization Schema'', 45),
      (''Missing Meta Description'', 45),
      (''Large Page Size'', 55),
      (''Images Without Alt Text'', 40),
      (''Short Meta Description'', 25),
      (''Long Meta Description'', 25),
      (''Excessive External Links'', 30),
      (''Multiple H1 Tags'', 30),
      (''long_title'', 25),
      (''High Impressions Zero Clicks'', 95),
      (''High Traffic Page with Technical Issues'', 90),
      (''High Impressions Low CTR'', 70),
      (''High Impressions Poor Position'', 60),
      (''High Value Page Opportunity'', 50)]"

definition page_weights_literal :: "(string \<times> rat) list" where
  \<comment> \<open>the table as the source text writes it, in decimal\<close>
  "page_weights_literal =
     [(''homepage'', 50 / 10),
      (''product'', 45 / 10),
      (''category'', 40 / 10),
      (''checkout'', 48 / 10),
      (''pricing'', 45 / 10),
      (''contact'', 30 / 10),
      (''about'', 25 / 10),
      (''blog'', 20 / 10),
      (''other'', 20 / 10)]"

definition page_weights :: "(string \<times> pyfloat) list" where
  \<comment> \<open>the table at run time: every literal is read as the nearest float\<close>
  "page_weights = map (\<lambda>(page_type, w). (page_type, fl w)) page_weights_literal"

definition classify_page_type :: "string \<Rightarrow> string" where
  "classify_page_type url =
     (let url_lower = lower url
      in if any_in [''/'', ''/home'', ''/index''] url_lower
            \<and> count_list url_lower CHR ''/'' \<le> 3
         then ''homepage''
         else if any_in [''/product'', ''/p/'', ''photo-blankets'', ''photo-books'',
                         ''photo-mugs''] url_lower
         then ''product''
         else if any_in [''/category'', ''/c/'', ''/canvas-prints'', ''/photo-calendars'']
                        url_lower
         then ''category''
         else if any_in [''/checkout'', ''/cart'', ''/basket''] url_lower
         then ''checkout''
         else if any_in [''/about'', ''/company''] url_lower
         then ''about''
         else if any_in [''/contact'', ''/support''] url_lower
         then ''contact''
         else if any_in [''/blog'', ''/news''] url_lower
         then ''blog''
         else ''other'')"

definition base_impact_of :: "string \<Rightarrow> int" where
  \<comment> \<open>\<open>self.issue_severity.get(issue_type, 50)\<close>\<close>
  "base_impact_of issue_type =
     (case map_of issue_severity issue_type of None \<Rightarrow> 50 | Some b \<Rightarrow> b)"

definition page_weight_of :: "string \<Rightarrow> pyfloat" where
  \<comment> \<open>\<open>self.page_weights.get(page_type, 2.0)\<close>\<close>
  "page_weight_of page_type =
     (case map_of page_weights page_type of None \<Rightarrow> fl 2 | Some w \<Rightarrow> w)"

definition strategic_impact :: "int \<Rightarrow> pyfloat \<Rightarrow> pyfloat" where
  \<comment> \<open>\<open>base_impact * (page_weight / 2.5)\<close>\<close>
  "strategic_impact base_impact page_weight =
     fmul (float_of_int base_impact) (fdiv page_weight (fl (25 / 10)))"

definition get_strategic_impact_score :: "string \<Rightarrow> string \<Rightarrow> int" where
  "get_strategic_impact_score issue_type url =
     (let base_impact = base_impact_of issue_type;
          page_type = classify_page_type url;
          page_weight = page_weight_of page_type
      in min 100 (int_of_float (strategic_impact base_impact page_weight)))"

definition page_weights_literal_get :: "string \<Rightarrow> rat" where
  \<comment> \<open>the lookup \<open>page_weights.get(page_type, 2.0)\<close> read in decimal, before any rounding\<close>
  "page_weights_literal_get page_type =
     (case map_of page_weights_literal page_type of None \<Rightarrow> 20 / 10 | Some w \<Rightarrow> w)"

definition score_as_specified :: "string \<Rightarrow> string \<Rightarrow> int" where
  \<comment> \<open>the formula of the specification, \<open>min(100, round(base * weight / 2.5))\<close>, in Python's
      arithmetic, to be compared with \<open>get_strategic_impact_score\<close>\<close>
  "score_as_specified issue_type url =
     min 100 (py_round (fdiv (fmul (float_of_int (base_impact_of issue_type))
                                   (page_weight_of (classify_page_type url)))
                             (fl (25 / 10))))"

definition page_types :: "string list" where
  \<comment> \<open>the values that \<open>classify_page_type\<close> returns\<close>
  "page_types =
     [''homepage'', ''product'', ''category'', ''checkout'', ''about'', ''contact'', ''blog'',
      ''other'']"

section \<open>Records of an audit run\<close>

text \<open>
  \<open>TechnicalSEOIssue\<close>. The fields \<open>description\<close>, \<open>recommendation\<close> and \<open>date_detected\<close>
  are left out: they are texts for the reader and a clock reading, and no function of the
  scoring core reads them.
\<close>

record technical_seo_issue =
  url :: string
  issue_type :: string
  severity :: string
  category :: string
  status :: string
  impact_score :: int

text \<open>\<open>CrawlMetrics\<close>, one per crawled page (\<open>cm_url\<close> is its field \<open>url\<close>).\<close>

record crawl_metrics =
  cm_url :: string
  status_code :: int
  response_time :: pyfloat
  title :: string
  meta_description :: string
  h1_tags :: "string list"
  canonical_url :: "string option"
  robots_meta :: string
  internal_links :: int
  external_links :: int
  images_without_alt :: int
  page_size :: int

text \<open>
  The dictionary that \<open>SchemaValidator.validate_structured_data\<close> returns (\<open>sd_url\<close> is
  its key \<open>url\<close>); \<open>error\<close> is \<open>None\<close> when the key is absent.
\<close>

record schema_result =
  sd_url :: string
  error :: "string option"
  json_ld_count :: int
  schema_types_found :: "string list"

text \<open>
  \<open>GSCMetrics\<close> with the entries of \<open>page_experience_signals\<close> that the analysis reads
  (\<open>gsc_url\<close> is its field \<open>url\<close>).
\<close>

record gsc_metrics =
  gsc_url :: string
  impressions :: pyfloat
  clicks :: pyfloat
  ctr :: pyfloat
  position :: pyfloat

text \<open>The entries of \<open>audit_results\<close> that the analysis and the summary read.\<close>

record audit_results =
  crawl_data :: "crawl_metrics list"
  schema_data :: "schema_result list"
  gsc_data :: "(string \<times> gsc_metrics list) list"
  issues :: "technical_seo_issue list"

section \<open>TechnicalSEOAuditor._analyze_issues\<close>

definition new_issue :: "string \<Rightarrow> string \<Rightarrow> string \<Rightarrow> string \<Rightarrow> technical_seo_issue" where
  \<comment> \<open>the block every rule repeats: score the issue type on the url, build the issue\<close>
  "new_issue u itype sev cat =
     \<lparr>url = u, issue_type = itype, severity = sev, category = cat, status = ''New'',
      impact_score = get_strategic_impact_score itype u\<rparr>"

definition generic_patterns :: "string list" where
  "generic_patterns = [''untitled'', ''new page'', ''home page'', ''welcome'', ''default'', ''page'']"

definition crawl_issues :: "crawl_metrics \<Rightarrow> technical_seo_issue list" where
  \<comment> \<open>the body of the first loop, for one crawl record\<close>
  "crawl_issues c =
     (let u = cm_url c;
          content_length = length (title c @ meta_description c @ join '' '' (h1_tags c));
          title_len = length (title c);
          meta_len = length (meta_description c)
      in (if status_code c \<ge> 400
          then [new_issue u ''HTTP Error''
                  (if status_code c \<ge> 500 then ''Critical'' else ''High'') ''Crawlability'']
          else [])
       @ (if response_time c > fl 3
          then [new_issue u ''Slow Response Time''
                  (if response_time c > fl 5 then ''High'' else ''Medium'') ''Performance'']
          else [])
       @ (if title c = [] then [new_issue u ''Missing Title Tag'' ''High'' ''Content''] else [])
       @ (if meta_description c = []
          then [new_issue u ''Missing Meta Description'' ''Medium'' ''Content''] else [])
       @ (if h1_tags c = [] then [new_issue u ''Missing H1 Tag'' ''Medium'' ''Content'']
          else if length (h1_tags c) > 1
          then [new_issue u ''Multiple H1 Tags'' ''Low'' ''Content''] else [])
       @ (if images_without_alt c > 0
          then [new_issue u ''Images Without Alt Text'' ''Medium'' ''Content''] else [])
       @ (if page_size c > 1024 * 1024
          then [new_issue u ''Large Page Size'' ''Medium'' ''Performance''] else [])
       @ (if content_length < 200 then [new_issue u ''Thin Content'' ''High'' ''Content'']
          else [])
       @ (if title c \<noteq> []
          then (if title_len < 30 then [new_issue u ''Short Title Tag'' ''Medium'' ''Content'']
                else if title_len > 70
                then [new_issue u ''Long Title Tag'' ''Medium'' ''Content''] else [])
             @ (if any_in generic_patterns (lower (title c))
                then [new_issue u ''Generic Title Tag'' ''High'' ''Content''] else [])
          else [])
       @ (if meta_description c \<noteq> []
          then (if meta_len < 120
                then [new_issue u ''Short Meta Description'' ''Low'' ''Content'']
                else if meta_len > 170
                then [new_issue u ''Long Meta Description'' ''Low'' ''Content''] else [])
          else [])
       @ (case canonical_url c of
            None \<Rightarrow> [new_issue u ''Missing Canonical Tag'' ''High'' ''Technical SEO'']
          | Some canonical \<Rightarrow>
              if canonical = []
              then [new_issue u ''Missing Canonical Tag'' ''High'' ''Technical SEO'']
              else if canonical \<noteq> u \<and> \<not> startswith canonical ''http''
              then [new_issue u ''Invalid Canonical URL'' ''High'' ''Technical SEO'']
              else [])
       @ (if internal_links c < 3
          then [new_issue u ''Insufficient Internal Links'' ''Medium'' ''Technical SEO'']
          else [])
       @ (if external_links c > 50
          then [new_issue u ''Excessive External Links'' ''Low'' ''Technical SEO''] else [])
       @ (if robots_meta c \<noteq> []
          then (let robots_content = lower (robots_meta c)
                in if contains robots_content ''noindex'' \<and> contains robots_content ''nofollow''
                   then [new_issue u ''Blocked by Robots Meta'' ''Critical'' ''Technical SEO'']
                   else [])
          else []))"

fun cross_page ::
  "crawl_metrics list \<Rightarrow> (string \<rightharpoonup> string) \<Rightarrow> (string \<rightharpoonup> string) \<Rightarrow> technical_seo_issue list"
where
  \<comment> \<open>the second loop; the two maps are \<open>titles_seen\<close> and \<open>meta_descriptions_seen\<close>\<close>
  "cross_page [] titles_seen meta_descriptions_seen = []"
| "cross_page (c # cs) titles_seen meta_descriptions_seen =
     (let u = cm_url c;
          t = strip (title c);
          meta_desc = strip (meta_description c);
          title_dup = (t \<noteq> [] \<and> length t > 10);
          meta_dup = (meta_desc \<noteq> [] \<and> length meta_desc > 20)
      in (if title_dup
          then (case titles_seen t of
                  Some seen \<Rightarrow>
                    map (\<lambda>duplicate_url.
                           new_issue duplicate_url ''Duplicate Title Tags'' ''High'' ''Content'')
                        [u, seen]
                | None \<Rightarrow> [])
          else [])
       @ (if meta_dup
          then (case meta_descriptions_seen meta_desc of
                  Some seen \<Rightarrow>
                    map (\<lambda>duplicate_url.
                           new_issue duplicate_url ''Duplicate Meta Descriptions'' ''Medium''
                             ''Content'')
                        [u, seen]
                | None \<Rightarrow> [])
          else [])
       @ cross_page cs
           (if title_dup \<and> titles_seen t = None then titles_seen(t \<mapsto> u) else titles_seen)
           (if meta_dup \<and> meta_descriptions_seen meta_desc = None
            then meta_descriptions_seen(meta_desc \<mapsto> u) else meta_descriptions_seen))"

definition schema_issues :: "schema_result \<Rightarrow> technical_seo_issue list" where
  \<comment> \<open>the body of the loop over \<open>schema_data\<close>\<close>
  "schema_issues sd =
     (let u = sd_url sd
      in if u \<noteq> [] \<and> (error sd = None \<or> error sd = Some [])
         then (if json_ld_count sd = 0
               then [new_issue u ''Missing Structured Data'' ''Medium'' ''Technical SEO'']
               else [])
            @ (let page_type = classify_page_type u
               in (if page_type = ''product'' \<and> ''Product'' \<notin> set (schema_types_found sd)
                   then [new_issue u ''Missing Product Schema'' ''High'' ''Technical SEO'']
                   else [])
                @ (if page_type = ''homepage'' \<and> ''Organization'' \<notin> set (schema_types_found sd)
                   then [new_issue u ''Missing Organization Schema'' ''Medium'' ''Technical SEO'']
                   else []))
         else [])"

definition gsc_issues :: "technical_seo_issue list \<Rightarrow> gsc_metrics \<Rightarrow> technical_seo_issue list" where
  \<comment> \<open>the body of the loop over the GSC metrics: the list of issues so far, extended\<close>
  "gsc_issues found g =
     (let u = gsc_url g;
          found1 = found
            @ (if impressions g > 1000 \<and> ctr g < fl (2 / 100)
               then [new_issue u ''High Impressions Low CTR'' ''High'' ''GSC Performance'']
               else [])
            @ (if impressions g > 500 \<and> position g > 10
               then [new_issue u ''High Impressions Poor Position'' ''Medium'' ''GSC Performance'']
               else [])
            @ (if impressions g > 1000 \<and> clicks g = 0
               then [new_issue u ''High Impressions Zero Clicks'' ''Critical'' ''GSC Performance'']
               else [])
            @ (if impressions g > 10000
               then [new_issue u ''High Value Page Opportunity'' ''Medium'' ''GSC Performance'']
               else []);
          crawl_issues_for_url =
            filter (\<lambda>issue. url issue = u \<and> category issue \<noteq> ''GSC Performance'') found1
      in found1
       @ (if crawl_issues_for_url \<noteq> [] \<and> impressions g > 1000
          then [new_issue u ''High Traffic Page with Technical Issues'' ''Critical''
                  ''GSC Performance'']
          else []))"

definition analyze_issues :: "audit_results \<Rightarrow> technical_seo_issue list" where
  "analyze_issues ar =
     foldl gsc_issues
       (concat (map crawl_issues (crawl_data ar))
        @ cross_page (crawl_data ar) Map.empty Map.empty
        @ concat (map schema_issues (schema_data ar)))
       (concat (map snd (gsc_data ar)))"

section \<open>TechnicalSEOAuditor._categorize_issues_by_team\<close>

text \<open>
  One entry of \<open>team_categories\<close>. The fields \<open>team_total_issues\<close>, \<open>team_critical_issues\<close>
  and \<open>team_high_issues\<close> are its keys \<open>total_issues\<close>, \<open>critical_issues\<close> and
  \<open>high_issues\<close>; the metrics are zero until the second loop sets them.
\<close>

record team_data =
  name :: string
  description :: string
  team_issues :: "technical_seo_issue list"
  issue_types :: "string list"
  team_total_issues :: int
  team_critical_issues :: int
  team_high_issues :: int
  avg_impact :: pyfloat
  priority_score :: int

definition new_team :: "string \<Rightarrow> string \<Rightarrow> string list \<Rightarrow> team_data" where
  "new_team n d types =
     \<lparr>name = n, description = d, team_issues = [], issue_types = types,
      team_total_issues = 0, team_critical_issues = 0, team_high_issues = 0,
      avg_impact = 0, priority_score = 0\<rparr>"

definition team_categories :: "(string \<times> team_data) list" where
  \<comment> \<open>the dictionary literal, in its order\<close>
  "team_categories =
     [(''tech_team'',
       new_team '' TECH/DEV TEAM''
         ''Server, infrastructure, and technical implementation issues''
         [''HTTP Error'', ''Slow Response Time'', ''Large Page Size'',
          ''Missing Canonical Tag'', ''Invalid Canonical URL'', ''Blocked by Robots Meta'',
          ''Missing Structured Data'', ''Missing Product Schema'',
          ''Missing Organization Schema'',
          ''Insufficient Internal Links'', ''Excessive External Links'',
          ''High Impressions Zero Clicks'', ''High Traffic Page with Technical Issues'',
          ''missing_canonical'', ''crawlability'', ''https_issues'',
          ''server_errors'', ''redirect_chains'', ''broken_links'']),
      (''marketing_team'',
       new_team '' MARKETING TEAM''
         ''Content optimization, meta tags, and SEO strategy''
         [''Missing Title Tag'', ''Short Title Tag'', ''Long Title Tag'', ''Generic Title Tag'',
          ''Duplicate Title Tags'', ''Missing Meta Description'', ''Short Meta Description'',
          ''Long Meta Description'', ''Duplicate Meta Descriptions'', ''Missing H1 Tag'',
          ''Multiple H1 Tags'', ''Thin Content'',
          ''High Impressions Low CTR'', ''High Impressions Poor Position'',
          ''High Value Page Opportunity'',
          ''duplicate_content'', ''keyword_optimization'', ''thin_content'',
          ''missing_schema'']),
      (''design_team'',
       new_team '' DESIGN/UX TEAM''
         ''User experience, mobile design, and visual optimization''
         [''Images Without Alt Text'', ''not_mobile_friendly'', ''poor_ux'',
          ''mobile_usability'', ''touch_targets'', ''viewport_issues'',
          ''image_optimization'', ''layout_issues''])]"

definition team_matches :: "team_data \<Rightarrow> string \<Rightarrow> bool" where
  \<comment> \<open>the condition of the inner loop\<close>
  "team_matches data itype =
     (itype \<in> set (issue_types data)
      \<or> list_ex (\<lambda>keyword. contains (lower itype) keyword)
                 (map (\<lambda>t. replace_char CHR ''_'' CHR '' '' (lower t)) (issue_types data)))"

fun append_issue ::
  "string \<Rightarrow> technical_seo_issue \<Rightarrow> (string \<times> team_data) list \<Rightarrow> (string \<times> team_data) list"
where
  \<comment> \<open>\<open>teams[team]['issues'].append(issue)\<close>\<close>
  "append_issue team issue [] = []"
| "append_issue team issue ((k, data) # rest) =
     (if k = team then (k, data\<lparr>team_issues := team_issues data @ [issue]\<rparr>) # rest
      else (k, data) # append_issue team issue rest)"

definition categorize_issue ::
  "(string \<times> team_data) list \<Rightarrow> technical_seo_issue \<Rightarrow> (string \<times> team_data) list"
where
  \<comment> \<open>the body of the first loop: the first team that matches takes the issue, and the tech
      team takes an issue that no team matches\<close>
  "categorize_issue teams issue =
     (case find (\<lambda>(team, data). team_matches data (issue_type issue)) teams of
        Some (team, data) \<Rightarrow> append_issue team issue teams
      | None \<Rightarrow> append_issue ''tech_team'' issue teams)"

definition count_severity :: "string \<Rightarrow> technical_seo_issue list \<Rightarrow> int" where
  \<comment> \<open>\<open>len([i for i in issues if i.severity == sev])\<close>\<close>
  "count_severity sev found = int (length (filter (\<lambda>i. severity i = sev) found))"

definition team_metrics :: "team_data \<Rightarrow> team_data" where
  \<comment> \<open>the body of the second loop\<close>
  "team_metrics data =
     (let found = team_issues data;
          critical = count_severity ''Critical'' found;
          high = count_severity ''High'' found
      in data\<lparr>team_total_issues := int (length found),
              team_critical_issues := critical,
              team_high_issues := high,
              avg_impact :=
                (if found \<noteq> []
                 then fl (of_int (sum_list (map impact_score found)) / of_int (int (length found)))
                 else 0),
              priority_score := critical * 10 + high * 5 + int (length found)\<rparr>)"

definition categorize_issues_by_team ::
  "technical_seo_issue list \<Rightarrow> (string \<times> team_data) list"
where
  "categorize_issues_by_team found =
     map (\<lambda>(team, data). (team, team_metrics data))
         (foldl categorize_issue team_categories found)"

definition team_bucket :: "string \<Rightarrow> (string \<times> team_data) list \<Rightarrow> technical_seo_issue list" where
  \<comment> \<open>\<open>teams[team]['issues']\<close>\<close>
  "team_bucket team teams = (case map_of teams team of None \<Rightarrow> [] | Some data \<Rightarrow> team_issues data)"

section \<open>TechnicalSEOAuditor._generate_audit_summary\<close>

record business_impact =
  bi_url :: string
  bi_page_type :: string
  bi_critical_issues :: int
  business_importance :: pyfloat

record strategic_insights =
  high_priority_pages_with_issues :: int
  page_type_breakdown :: "(string \<times> int \<times> int) list"
  critical_business_impact :: "business_impact list"

text \<open>
  The summary. The key \<open>avg_response_time\<close> is left out: it is the built-in \<open>sum\<close> over
  floats, whose rounding depends on the interpreter's version, and nothing else reads it.
\<close>

record audit_summary =
  total_issues :: int
  critical_issues :: int
  high_issues :: int
  medium_issues :: int
  low_issues :: int
  issue_categories :: "(string \<times> int) list"
  error_pages :: int
  seo_score :: pyfloat
  insights :: strategic_insights
  team_breakdown :: "(string \<times> team_data) list"

fun count_category :: "string \<Rightarrow> (string \<times> int) list \<Rightarrow> (string \<times> int) list" where
  \<comment> \<open>\<open>if category not in d: d[category] = 0\<close>, then \<open>d[category] += 1\<close>\<close>
  "count_category cat [] = [(cat, 1)]"
| "count_category cat ((k, n) # rest) =
     (if k = cat then (k, n + 1) # rest else (k, n) # count_category cat rest)"

fun group_issue ::
  "technical_seo_issue \<Rightarrow> (string \<times> technical_seo_issue list) list
     \<Rightarrow> (string \<times> technical_seo_issue list) list"
where
  \<comment> \<open>\<open>if issue.url not in d: d[issue.url] = []\<close>, then \<open>d[issue.url].append(issue)\<close>\<close>
  "group_issue issue [] = [(url issue, [issue])]"
| "group_issue issue ((k, found) # rest) =
     (if k = url issue then (k, found @ [issue]) # rest
      else (k, found) # group_issue issue rest)"

definition page_issues_of ::
  "technical_seo_issue list \<Rightarrow> (string \<times> technical_seo_issue list) list"
where
  \<comment> \<open>the dictionary \<open>page_issues\<close>, in insertion order\<close>
  "page_issues_of found = foldl (\<lambda>d issue. group_issue issue d) [] found"

definition weigh_page ::
  "pyfloat \<times> pyfloat \<Rightarrow> string \<times> technical_seo_issue list \<Rightarrow> pyfloat \<times> pyfloat"
where
  \<comment> \<open>the body of the loop over \<open>page_issues\<close>, on the pair
      \<open>(total_weighted_impact, total_weight)\<close>\<close>
  "weigh_page totals entry =
     (let (total_weighted_impact, total_weight) = totals;
          (u, url_issues) = entry;
          page_weight = page_weight_of (classify_page_type u);
          page_impact = sum_list (map impact_score url_issues);
          weighted_impact = fmul (float_of_int page_impact) page_weight
      in (fadd total_weighted_impact weighted_impact, fadd total_weight page_weight))"

definition weigh_clean_page ::
  "(string \<times> technical_seo_issue list) list \<Rightarrow> pyfloat \<Rightarrow> crawl_metrics \<Rightarrow> pyfloat"
where
  \<comment> \<open>the body of the loop over the crawled pages, on \<open>total_weight\<close>\<close>
  "weigh_clean_page page_issues total_weight page_data =
     (let u = cm_url page_data
      in if u \<notin> fst ` set page_issues
         then fadd total_weight (page_weight_of (classify_page_type u))
         else total_weight)"

definition weighted_totals :: "audit_results \<Rightarrow> pyfloat \<times> pyfloat" where
  \<comment> \<open>\<open>(total_weighted_impact, total_weight)\<close> after both loops\<close>
  "weighted_totals ar =
     (let page_issues = page_issues_of (issues ar);
          (total_weighted_impact, total_weight) = foldl weigh_page (0, 0) page_issues
      in (total_weighted_impact,
          foldl (weigh_clean_page page_issues) total_weight (crawl_data ar)))"

fun count_page_type :: "string \<Rightarrow> int \<Rightarrow> (string \<times> int \<times> int) list \<Rightarrow> (string \<times> int \<times> int) list"
where
  \<comment> \<open>one page more of a page type, and its issues, in \<open>page_type_breakdown\<close>\<close>
  "count_page_type page_type n [] = [(page_type, 1, n)]"
| "count_page_type page_type n ((k, pages, found) # rest) =
     (if k = page_type then (k, pages + 1, found + n) # rest
      else (k, pages, found) # count_page_type page_type n rest)"

definition insight_step ::
  "strategic_insights \<Rightarrow> string \<times> technical_seo_issue list \<Rightarrow> strategic_insights"
where
  \<comment> \<open>the body of the loop of \<open>_get_strategic_insights\<close>\<close>
  "insight_step acc entry =
     (let (u, found) = entry;
          page_type = classify_page_type u;
          page_weight = page_weight_of page_type;
          critical = count_severity ''Critical'' found;
          acc1 =
            (if page_weight \<ge> fl 4
             then acc\<lparr>high_priority_pages_with_issues :=
                          high_priority_pages_with_issues acc + 1,
                      critical_business_impact :=
                          critical_business_impact acc
                          @ (if critical > 0
                             then [\<lparr>bi_url = u, bi_page_type = page_type,
                                    bi_critical_issues = critical,
                                    business_importance = page_weight\<rparr>]
                             else [])\<rparr>
             else acc)
      in acc1\<lparr>page_type_breakdown :=
                 count_page_type page_type (int (length found)) (page_type_breakdown acc1)\<rparr>)"

definition get_strategic_insights ::
  "(string \<times> technical_seo_issue list) list \<Rightarrow> strategic_insights"
where
  "get_strategic_insights page_issues =
     foldl insight_step
       \<lparr>high_priority_pages_with_issues = 0, page_type_breakdown = [],
        critical_business_impact = []\<rparr>
       page_issues"

definition generate_audit_summary :: "audit_results \<Rightarrow> audit_summary" where
  "generate_audit_summary ar =
     (let found = issues ar;
          (total_weighted_impact, total_weight) = weighted_totals ar
      in \<lparr>total_issues = int (length found),
          critical_issues = count_severity ''Critical'' found,
          high_issues = count_severity ''High'' found,
          medium_issues = count_severity ''Medium'' found,
          low_issues = count_severity ''Low'' found,
          issue_categories = foldl (\<lambda>d issue. count_category (category issue) d) [] found,
          error_pages = int (length (filter (\<lambda>c. status_code c \<ge> 400) (crawl_data ar))),
          seo_score =
            (if total_weight > 0
             then max 0 (fsub 100 (fdiv (fdiv total_weighted_impact total_weight) 50))
             else 100),
          insights = get_strategic_insights (page_issues_of found),
          team_breakdown = categorize_issues_by_team found\<rparr>)"

section \<open>The audit set, and runs used as examples\<close>

text \<open>
  \<open>run_comprehensive_audit\<close> crawls every url of \<open>urls_to_audit\<close> and validates the
  structured data of the first ten; a crawl record and a schema result carry the url they
  were fetched for. The Search Console rows are not fetched by url: they are the top pages
  of each domain.
\<close>

definition collected_from :: "string list \<Rightarrow> audit_results \<Rightarrow> bool" where
  "collected_from urls_to_audit ar =
     (cm_url ` set (crawl_data ar) \<subseteq> set urls_to_audit
      \<and> sd_url ` set (schema_data ar) \<subseteq> set (take 10 urls_to_audit))"

text \<open>
The update of \<open>titles_seen\<close> (threshold 10) and of \<open>meta_descriptions_seen\<close> (threshold 20) in the second loop of the analysis.
\<close>

definition seen_next :: "(string \<rightharpoonup> string) \<Rightarrow> nat \<Rightarrow> string \<Rightarrow> string \<Rightarrow> (string \<rightharpoonup> string)" where
  "seen_next seen n t u =
     (if (t \<noteq> [] \<and> n < length t) \<and> seen t = None then seen(t \<mapsto> u) else seen)"

text \<open>
The scenario of the specification: the homepage answers 503.
\<close>

definition example_home :: crawl_metrics where
  "example_home =
     \<lparr>cm_url = ''https://x.com/'', status_code = 503, response_time = 1, title = ''Home'',
      meta_description = [], h1_tags = [], canonical_url = None, robots_meta = [],
      internal_links = 0, external_links = 0, images_without_alt = 0, page_size = 0\<rparr>"

definition example_home_run :: audit_results where
  "example_home_run =
     \<lparr>crawl_data = [example_home], schema_data = [], gsc_data = [], issues = []\<rparr>"

text \<open>
A run whose crawl failed, with one Search Console row for another page of the domain.
\<close>

definition example_gsc_run :: audit_results where
  "example_gsc_run =
     \<lparr>crawl_data = [],
      schema_data =
        [\<lparr>sd_url = ''https://x.com/'', error = Some ''timeout'', json_ld_count = 0,
          schema_types_found = []\<rparr>],
      gsc_data =
        [(''sc-domain:x.com'',
          [\<lparr>gsc_url = ''https://x.com/sale'', impressions = 20000, clicks = 0, ctr = 0,
            position = 1\<rparr>])],
      issues = []\<rparr>"

text \<open>
  The four rules of the Search Console pass that read a row alone: impressions against
  click-through rate, position and clicks, and the impressions themselves. The fifth rule
  of that pass, ``High Traffic Page with Technical Issues'', also reads the issues found
  so far.
\<close>

definition gsc_signal_rules :: "string list" where
  "gsc_signal_rules =
     [''High Impressions Low CTR'', ''High Impressions Poor Position'',
      ''High Impressions Zero Clicks'', ''High Value Page Opportunity'']"

text \<open>
A run that audits the homepage alone, which answers 503, with two Search Console rows: one for the homepage, one for another page of the domain.
\<close>

definition example_traffic_run :: audit_results where
  "example_traffic_run =
     \<lparr>crawl_data = [example_home],
      schema_data = [],
      gsc_data =
        [(''sc-domain:x.com'',
          [\<lparr>gsc_url = ''https://x.com/'', impressions = 20000, clicks = 0, ctr = 0,
            position = 1\<rparr>,
           \<lparr>gsc_url = ''https://x.com/sale'', impressions = 20000, clicks = 0, ctr = 0,
            position = 1\<rparr>])],
      issues = []\<rparr>"





text \<open>
A run with nothing crawled and nothing found.
\<close>

definition example_empty_run :: audit_results where
  "example_empty_run = \<lparr>crawl_data = [], schema_data = [], gsc_data = [], issues = []\<rparr>"

section \<open>Routing, read off the loop\<close>

text \<open>
  The key of the team that the first loop of \<open>_categorize_issues_by_team\<close> appends an
  issue type to: the first team that matches, the tech team when none does.
\<close>

definition team_of :: "(string \<times> team_data) list \<Rightarrow> string \<Rightarrow> string" where
  "team_of teams itype =
     (case find (\<lambda>(team, data). team_matches data itype) teams of
        Some (team, data) \<Rightarrow> team
      | None \<Rightarrow> ''tech_team'')"

text \<open>
  The teams after the loop has seen the issues \<open>found\<close>, when \<open>r\<close> tells the team of an
  issue: every team has got, in order, the issues that \<open>r\<close> sends to it.
\<close>

definition routed ::
  "(technical_seo_issue \<Rightarrow> string) \<Rightarrow> technical_seo_issue list \<Rightarrow> (string \<times> team_data) list
     \<Rightarrow> (string \<times> team_data) list"
where
  "routed r found teams =
     map (\<lambda>(k, d). (k, d\<lparr>team_issues := team_issues d @ filter (\<lambda>i. r i = k) found\<rparr>)) teams"

text \<open>
Two issues for the examples: one of the design team, one of a type that no team lists.
\<close>

definition example_alt_issue :: technical_seo_issue where
  "example_alt_issue =
     \<lparr>url = ''https://x.com/'', issue_type = ''Images Without Alt Text'', severity = ''Medium'',
      category = ''Content'', status = ''New'', impact_score = 80\<rparr>"

definition example_new_issue :: technical_seo_issue where
  "example_new_issue =
     \<lparr>url = ''https://x.com/'', issue_type = ''Unknown Rule'', severity = ''Low'',
      category = ''Content'', status = ''New'', impact_score = 100\<rparr>"

section \<open>Evaluating floats\<close>

lemma bit_length_numeral [simp]:
  "bit_length 0 = 0"
  "bit_length 1 = 1"
  "bit_length (numeral (Num.Bit0 k)) = 1 + bit_length (numeral k)"
  "bit_length (numeral (Num.Bit1 k)) = 1 + bit_length (numeral k)"
  "bit_length (- numeral k) = 0"
  by (subst bit_length.simps, simp)+

lemma floor_rat_numeral [simp]:
  "\<lfloor>numeral a / numeral b :: rat\<rfloor> = numeral a div numeral b"
  using floor_divide_of_int_eq [of "numeral a" "numeral b", where ?'a = rat] by simp

lemma ceiling_rat_numeral [simp]:
  "\<lceil>numeral a / numeral b :: rat\<rceil> = - (- numeral a div numeral b)"
  using ceiling_divide_eq_div [of "numeral a" "numeral b", where ?'a = rat] by simp

lemmas float_eval = fl_def binade_def round_half_even_def fadd_def fsub_def
  fmul_def fdiv_def float_of_int_def int_of_float_def Let_def power_int_def power_one_over

lemma fl_2 [simp]: "fl 2 = 2"
  by (simp add: float_eval)

lemma fl_25 [simp]: "fl (25 / 10) = 5 / 2"
  by (simp add: float_eval)

section \<open>The scorer\<close>

lemma page_weights_value:
  "page_weights =
     [(''homepage'', 5), (''product'', 9 / 2), (''category'', 4),
      (''checkout'', 5404319552844595 / 1125899906842624), (''pricing'', 9 / 2),
      (''contact'', 3), (''about'', 5 / 2), (''blog'', 2), (''other'', 2)]"
  by (simp add: page_weights_def page_weights_literal_def float_eval)

lemma classify_page_type_range: "classify_page_type u \<in> set page_types"
  unfolding classify_page_type_def page_types_def Let_def
  by (simp only: list.set insert_iff simp_thms split: if_split)

lemma weight_cases:
  "p \<in> set page_types \<Longrightarrow>
   (page_weight_of p, page_weights_literal_get p) \<in>
     {(5, 5), (9 / 2, 9 / 2), (4, 4), (5404319552844595 / 1125899906842624, 24 / 5),
      (5 / 2, 5 / 2), (3, 3), (2, 2)}"
  by (auto simp: page_types_def page_weight_of_def page_weights_value
      page_weights_literal_get_def page_weights_literal_def)

lemma base_impact_of_range:
  "base_impact_of t \<in> {100, 90, 95, 85, 80, 75, 70, 65, 50, 55, 45, 40, 25, 30, 60}"
proof -
  have "base_impact_of t \<in> insert 50 (snd ` set issue_severity)"
    unfolding base_impact_of_def
    by (auto split: option.splits dest!: map_of_SomeD intro: rev_image_eqI)
  also have "insert 50 (snd ` set issue_severity) =
      {100, 90, 95, 85, 80, 75, 70, 65, 50, 55, 45, 40, 25, 30, 60}"
    unfolding issue_severity_def by (simp add: insert_commute)
  finally show ?thesis .
qed

text \<open>
  On every base score and every weight of the two tables, the two rounded float
  operations and the truncation give the floor of the exact quotient.
\<close>

lemma impact_table:
  "\<forall>b \<in> {100, 90, 95, 85, 80, 75, 70, 65, 50, 55, 45, 40, 25, 30, 60}.
   \<forall>(w, l) \<in> {(5, 5), (9 / 2, 9 / 2), (4, 4), (5404319552844595 / 1125899906842624, 24 / 5),
      (5 / 2, 5 / 2), (3, 3), (2, 2)}.
     int_of_float (strategic_impact b w) = \<lfloor>of_int b * l / (25 / 10) :: rat\<rfloor>"
  apply (simp only: ball_simps case_prod_conv)
  apply (simp add: strategic_impact_def float_eval)
  done

lemma impact_exact:
  "int_of_float (strategic_impact (base_impact_of t) (page_weight_of (classify_page_type u)))
   = \<lfloor>of_int (base_impact_of t) * page_weights_literal_get (classify_page_type u) / (25 / 10)\<rfloor>"
  using impact_table [THEN bspec, OF base_impact_of_range, THEN bspec,
      OF weight_cases [OF classify_page_type_range], of t u]
  by (simp only: prod.case)

lemma classify_checkout:
  "classify_page_type ''https://x.com/a/b/checkout'' = ''checkout''"
  by code_simp

lemma base_images: "base_impact_of ''Images Without Alt Text'' = 40"
  by (simp add: base_impact_of_def issue_severity_def)

lemma weight_checkout: "page_weight_of ''checkout'' = 5404319552844595 / 1125899906842624"
  by (simp add: page_weight_of_def page_weights_value)


text \<open>
  Claim C1, as stated: the score is \<open>min(100, round(base * weight / 2.5))\<close>. The code
  truncates with \<open>int\<close>, it does not round: an ``Images Without Alt Text'' issue (base 40)
  on a checkout page (weight 4.8) has the exact quotient 76.8, which the code scores 76
  and the stated formula 77.
\<close>

theorem score_specified_differs:
  "get_strategic_impact_score ''Images Without Alt Text'' ''https://x.com/a/b/checkout'' = 76
   \<and> score_as_specified ''Images Without Alt Text'' ''https://x.com/a/b/checkout'' = 77"
proof -
  have a: "fmul (float_of_int 40) (5404319552844595 / 1125899906842624) = 192"
    by (simp add: float_eval)
  have b: "fdiv 192 (fl (25 / 10)) = 5404319552844595 / 70368744177664"
    by (simp add: float_eval)
  have c: "py_round (5404319552844595 / 70368744177664) = 77"
    by (simp add: py_round_def round_half_even_def Let_def)
  have d: "int_of_float (strategic_impact 40 (5404319552844595 / 1125899906842624)) = 76"
    by (simp add: strategic_impact_def float_eval)
  show ?thesis
    by (simp only: get_strategic_impact_score_def score_as_specified_def Let_def
        classify_checkout base_images weight_checkout a b c d) simp
qed

text \<open>
  Claim C1, amended: for every issue type and every url the score is
  \<open>min(100, floor(base * weight / 2.5))\<close>, where base is the severity table's entry (50
  when absent), weight the page-weight table's entry of the classified page type (2.0
  when absent), both read in decimal, and the quotient is exact: the rounding of the
  float operations never changes the truncated value on these tables.
\<close>

theorem score_is_floor:
  "get_strategic_impact_score t u =
     min 100 \<lfloor>of_int (base_impact_of t)
                * page_weights_literal_get (classify_page_type u) / (25 / 10)\<rfloor>"
  by (simp only: get_strategic_impact_score_def Let_def impact_exact)

theorem score_is_floor_witness:
  "get_strategic_impact_score ''Images Without Alt Text'' ''https://x.com/a/b/checkout'' = 76"
  using score_is_floor [of "''Images Without Alt Text''" "''https://x.com/a/b/checkout''"]
  by (simp add: classify_checkout base_images page_weights_literal_get_def
      page_weights_literal_def)

lemma base_impact_nonneg: "0 \<le> base_impact_of t"
proof -
  have "\<forall>b \<in> {100, 90, 95, 85, 80, 75, 70, 65, 50, 55, 45, 40, 25, 30, 60}. (0::int) \<le> b"
    by simp
  from bspec [OF this base_impact_of_range] show ?thesis .
qed

lemma literal_weight_pos: "0 < page_weights_literal_get p"
  by (simp add: page_weights_literal_get_def page_weights_literal_def)

lemma get_score_floor:
  "get_strategic_impact_score t u =
     min 100 \<lfloor>of_int (base_impact_of t)
                * page_weights_literal_get (classify_page_type u) / (25 / 10)\<rfloor>"
  by (simp only: get_strategic_impact_score_def Let_def impact_exact)

lemma weight_order:
  assumes "p \<in> set page_types" "q \<in> set page_types"
  shows "page_weight_of p \<le> page_weight_of q
    \<longrightarrow> page_weights_literal_get p \<le> page_weights_literal_get q"
proof -
  have "\<forall>(w, l) \<in> {(5, 5), (9 / 2, 9 / 2), (4, 4),
            (5404319552844595 / 1125899906842624, 24 / 5), (5 / 2, 5 / 2), (3, 3), (2, 2)}.
        \<forall>(w', l') \<in> {(5, 5), (9 / 2, 9 / 2), (4, 4),
            (5404319552844595 / 1125899906842624, 24 / 5), (5 / 2, 5 / 2), (3, 3), (2, 2)}.
          (w::rat) \<le> w' \<longrightarrow> (l::rat) \<le> l'"
    by simp
  from this [THEN bspec, OF weight_cases [OF assms(1)], simplified prod.case,
      THEN bspec, OF weight_cases [OF assms(2)]]
  show ?thesis by (simp only: prod.case)
qed

lemma score_mono:
  assumes "page_weight_of (classify_page_type u1) \<le> page_weight_of (classify_page_type u2)"
  shows "get_strategic_impact_score t u1 \<le> get_strategic_impact_score t u2"
proof -
  let ?b = "of_int (base_impact_of t) :: rat"
  have l: "page_weights_literal_get (classify_page_type u1)
      \<le> page_weights_literal_get (classify_page_type u2)"
    using assms weight_order [OF classify_page_type_range classify_page_type_range] by blast
  have "0 \<le> ?b" using base_impact_nonneg [of t] by simp
  then have "?b * page_weights_literal_get (classify_page_type u1) / (25 / 10)
      \<le> ?b * page_weights_literal_get (classify_page_type u2) / (25 / 10)"
    using l by (intro divide_right_mono mult_left_mono) simp_all
  then show ?thesis
    unfolding get_score_floor by (meson floor_mono min.mono order_refl)
qed

lemma classify_home: "classify_page_type ''https://x.com/'' = ''homepage''"
  by code_simp

lemma classify_deep: "classify_page_type ''https://x.com/a/b/x/y'' = ''other''"
  by code_simp

lemma weight_home_other:
  "page_weight_of ''homepage'' = 5" "page_weight_of ''other'' = 2"
  by (simp_all add: page_weight_of_def page_weights_value)

lemma base_http: "base_impact_of ''HTTP Error'' = 90"
  by (simp add: base_impact_of_def issue_severity_def)

lemma score_http_home: "get_strategic_impact_score ''HTTP Error'' ''https://x.com/'' = 100"
  by (simp add: get_score_floor classify_home base_http page_weights_literal_get_def
      page_weights_literal_def)

text \<open>
  Claim C5: for every issue type of the detector's rule set and every url, the score is an
  integer between 0 and 100. It holds for every issue type at all: a base score is never
  negative, a weight is positive, and the result is capped at 100.
\<close>

theorem score_in_range:
  "0 \<le> get_strategic_impact_score t u \<and> get_strategic_impact_score t u \<le> 100"
proof -
  have "0 \<le> (of_int (base_impact_of t) :: rat)
      * page_weights_literal_get (classify_page_type u) / (25 / 10)"
    using base_impact_nonneg [of t] literal_weight_pos [of "classify_page_type u"]
    by simp
  then have "0 \<le> \<lfloor>(of_int (base_impact_of t) :: rat)
      * page_weights_literal_get (classify_page_type u) / (25 / 10)\<rfloor>"
    by simp
  then show ?thesis unfolding get_score_floor by simp
qed

theorem score_in_range_witness:
  "0 \<le> get_strategic_impact_score ''HTTP Error'' ''https://x.com/''
   \<and> get_strategic_impact_score ''HTTP Error'' ''https://x.com/'' \<le> 100"
  using score_in_range [of "''HTTP Error''" "''https://x.com/''"] .

text \<open>
  Claim C6: for the same issue type, a url classified as homepage scores at least as much
  as one classified as other; more generally the score does not decrease when the page
  weight of the classified page type grows.
\<close>

theorem score_monotone_in_page_weight:
  "(classify_page_type u_h = ''homepage'' \<and> classify_page_type u_o = ''other''
      \<longrightarrow> get_strategic_impact_score t u_o \<le> get_strategic_impact_score t u_h)
   \<and> (page_weight_of (classify_page_type u1) \<le> page_weight_of (classify_page_type u2)
      \<longrightarrow> get_strategic_impact_score t u1 \<le> get_strategic_impact_score t u2)"
proof (intro conjI impI)
  assume "classify_page_type u_h = ''homepage'' \<and> classify_page_type u_o = ''other''"
  then have "page_weight_of (classify_page_type u_o) \<le> page_weight_of (classify_page_type u_h)"
    by (simp add: weight_home_other)
  then show "get_strategic_impact_score t u_o \<le> get_strategic_impact_score t u_h"
    by (rule score_mono)
next
  assume "page_weight_of (classify_page_type u1) \<le> page_weight_of (classify_page_type u2)"
  then show "get_strategic_impact_score t u1 \<le> get_strategic_impact_score t u2"
    by (rule score_mono)
qed

theorem score_monotone_in_page_weight_witness:
  "get_strategic_impact_score ''HTTP Error'' ''https://x.com/a/b/x/y''
     \<le> get_strategic_impact_score ''HTTP Error'' ''https://x.com/''"
  using score_monotone_in_page_weight
    [of "''https://x.com/''" "''https://x.com/a/b/x/y''" "''HTTP Error''"]
  by (simp only: classify_home classify_deep simp_thms)

lemma contains_single: "0 < count_list s c \<Longrightarrow> contains s [c]"
  by (induction s) (auto split: if_splits)

lemma count_contact: "count_list (lower ''https://x.com/contact'') CHR ''/'' = 3"
  by code_simp

text \<open>
  Claim C10, as stated: every url whose lower-cased form has at most three slashes is
  classified homepage. The first rule also asks that one of its patterns occurs in the
  url, and a url with no slash at all has none: \<open>example.com\<close> falls through every rule
  to \<open>other\<close>.
\<close>

theorem no_slash_not_homepage:
  "count_list (lower ''example.com'') CHR ''/'' \<le> 3
   \<and> classify_page_type ''example.com'' = ''other''"
  by code_simp

text \<open>
  Claim C10, amended: every url whose lower-cased form has at least one and at most three
  slashes is classified homepage (weight 5.0), whatever keyword of a later rule it
  contains; \<open>https://x.com/contact\<close> is one.
\<close>

theorem shallow_url_is_homepage:
  assumes "1 \<le> count_list (lower u) CHR ''/''" and "count_list (lower u) CHR ''/'' \<le> 3"
  shows "classify_page_type u = ''homepage'' \<and> page_weight_of (classify_page_type u) = 5"
proof -
  have "contains (lower u) ''/''"
    using assms(1) by (intro contains_single) simp
  then have "any_in [''/'', ''/home'', ''/index''] (lower u)"
    by (simp add: any_in_def)
  then have "classify_page_type u = ''homepage''"
    using assms(2) by (simp only: classify_page_type_def Let_def simp_thms if_True)
  then show ?thesis
    by (simp add: weight_home_other)
qed

theorem shallow_url_is_homepage_witness:
  "classify_page_type ''https://x.com/contact'' = ''homepage''
   \<and> page_weight_of (classify_page_type ''https://x.com/contact'') = 5"
  using shallow_url_is_homepage [of "''https://x.com/contact''"]
  by (simp add: count_contact weight_home_other)

section \<open>The analysis\<close>

lemma crawl_issues_shape:
  "i \<in> set (crawl_issues c) \<Longrightarrow>
     url i = cm_url c \<and> category i \<noteq> ''GSC Performance''
     \<and> issue_type i \<noteq> ''Duplicate Title Tags''
     \<and> impact_score i = get_strategic_impact_score (issue_type i) (cm_url c)"
  apply (simp only: crawl_issues_def Let_def set_append Un_iff)
  apply (elim disjE)
  apply (simp_all add: new_issue_def split: if_splits option.splits)
  apply auto
  done

lemma http_issue_shape:
  "i \<in> set (crawl_issues c) \<Longrightarrow> issue_type i = ''HTTP Error'' \<Longrightarrow>
     400 \<le> status_code c
     \<and> severity i = (if 500 \<le> status_code c then ''Critical'' else ''High'')"
  apply (simp only: crawl_issues_def Let_def set_append Un_iff)
  apply (elim disjE)
  apply (simp_all add: new_issue_def split: if_splits option.splits)
  apply auto
  done

lemma http_issue_present:
  "400 \<le> status_code c \<Longrightarrow>
     new_issue (cm_url c) ''HTTP Error''
       (if 500 \<le> status_code c then ''Critical'' else ''High'') ''Crawlability''
     \<in> set (crawl_issues c)"
  by (simp only: crawl_issues_def Let_def set_append Un_iff) simp

lemma schema_issues_shape:
  "i \<in> set (schema_issues sd) \<Longrightarrow>
     url i = sd_url sd \<and> category i \<noteq> ''GSC Performance''
     \<and> issue_type i \<noteq> ''Duplicate Title Tags''"
  apply (simp only: schema_issues_def Let_def)
  apply (simp add: new_issue_def split: if_splits)
  apply auto
  done

lemma gsc_issues_shape:
  "i \<in> set (gsc_issues found g) \<Longrightarrow>
     i \<in> set found
     \<or> (url i = gsc_url g \<and> category i = ''GSC Performance''
        \<and> issue_type i \<noteq> ''Duplicate Title Tags'')"
  apply (simp only: gsc_issues_def Let_def set_append Un_iff)
  apply (elim disjE)
  apply (simp_all add: new_issue_def split: if_splits)
  done

lemma gsc_issues_prefix: "set found \<subseteq> set (gsc_issues found g)"
  by (simp only: gsc_issues_def Let_def set_append) blast

lemma foldl_gsc_prefix: "set found \<subseteq> set (foldl gsc_issues found gs)"
proof (induction gs arbitrary: found)
  case Nil
  show ?case by simp
next
  case (Cons g gs)
  have "set found \<subseteq> set (gsc_issues found g)" by (rule gsc_issues_prefix)
  also have "\<dots> \<subseteq> set (foldl gsc_issues (gsc_issues found g) gs)" by (rule Cons.IH)
  finally show ?case by simp
qed

lemma foldl_gsc_shape:
  "i \<in> set (foldl gsc_issues found gs) \<Longrightarrow>
     i \<in> set found
     \<or> (url i \<in> gsc_url ` set gs \<and> category i = ''GSC Performance''
        \<and> issue_type i \<noteq> ''Duplicate Title Tags'')"
proof (induction gs arbitrary: found)
  case Nil
  then show ?case by simp
next
  case (Cons g gs)
  from Cons.prems have "i \<in> set (foldl gsc_issues (gsc_issues found g) gs)" by simp
  from Cons.IH [OF this] gsc_issues_shape [of i found g] show ?case by auto
qed

lemma ran_seen_next: "ran (seen_next seen n t u) \<subseteq> insert u (ran seen)"
  by (auto simp: seen_next_def)

lemma cross_page_step:
  assumes "i \<in> set (cross_page (c # cs) ts ms)"
  shows "(\<exists>seen. ts (strip (title c)) = Some seen
            \<and> (i = new_issue (cm_url c) ''Duplicate Title Tags'' ''High'' ''Content''
               \<or> i = new_issue seen ''Duplicate Title Tags'' ''High'' ''Content''))
       \<or> (\<exists>seen. ms (strip (meta_description c)) = Some seen
            \<and> (i = new_issue (cm_url c) ''Duplicate Meta Descriptions'' ''Medium'' ''Content''
               \<or> i = new_issue seen ''Duplicate Meta Descriptions'' ''Medium'' ''Content''))
       \<or> i \<in> set (cross_page cs (seen_next ts 10 (strip (title c)) (cm_url c))
                       (seen_next ms 20 (strip (meta_description c)) (cm_url c)))"
proof -
  let ?t = "strip (title c)" and ?m = "strip (meta_description c)"
  from assms consider
      (title) "i \<in> set (if ?t \<noteq> [] \<and> 10 < length ?t
          then case ts ?t of None \<Rightarrow> []
               | Some seen \<Rightarrow>
                   map (\<lambda>duplicate_url.
                          new_issue duplicate_url ''Duplicate Title Tags'' ''High'' ''Content'')
                       [cm_url c, seen]
          else [])"
    | (meta) "i \<in> set (if ?m \<noteq> [] \<and> 20 < length ?m
          then case ms ?m of None \<Rightarrow> []
               | Some seen \<Rightarrow>
                   map (\<lambda>duplicate_url.
                          new_issue duplicate_url ''Duplicate Meta Descriptions'' ''Medium''
                            ''Content'')
                       [cm_url c, seen]
          else [])"
    | (rest) "i \<in> set (cross_page cs (seen_next ts 10 ?t (cm_url c))
                         (seen_next ms 20 ?m (cm_url c)))"
    by (simp only: cross_page.simps Let_def set_append Un_iff seen_next_def) blast
  then show ?thesis
  proof cases
    case title
    then have "?t \<noteq> [] \<and> 10 < length ?t" by (rule_tac ccontr) simp
    with title show ?thesis by (cases "ts ?t") auto
  next
    case meta
    then have "?m \<noteq> [] \<and> 20 < length ?m" by (rule_tac ccontr) simp
    with meta show ?thesis by (cases "ms ?m") auto
  next
    case rest
    then show ?thesis by blast
  qed
qed

lemma cross_page_shape:
  "i \<in> set (cross_page cs ts ms) \<Longrightarrow>
     category i \<noteq> ''GSC Performance'' \<and> url i \<in> cm_url ` set cs \<union> ran ts \<union> ran ms"
proof (induction cs arbitrary: ts ms)
  case Nil
  then show ?case by simp
next
  case (Cons c cs)
  from cross_page_step [OF Cons.prems] show ?case
  proof (elim disjE exE conjE)
    assume "i \<in> set (cross_page cs (seen_next ts 10 (strip (title c)) (cm_url c))
                       (seen_next ms 20 (strip (meta_description c)) (cm_url c)))"
    from Cons.IH [OF this] ran_seen_next [of ts 10 "strip (title c)" "cm_url c"]
      ran_seen_next [of ms 20 "strip (meta_description c)" "cm_url c"]
    show ?thesis by auto
  qed (auto simp: new_issue_def ranI)
qed

lemma analyze_issues_shape:
  assumes "i \<in> set (analyze_issues ar)"
  shows "(category i \<noteq> ''GSC Performance''
            \<and> url i \<in> cm_url ` set (crawl_data ar) \<union> sd_url ` set (schema_data ar))
         \<or> (category i = ''GSC Performance''
            \<and> url i \<in> gsc_url ` set (concat (map snd (gsc_data ar))))"
proof -
  let ?F = "concat (map crawl_issues (crawl_data ar))
        @ cross_page (crawl_data ar) Map.empty Map.empty
        @ concat (map schema_issues (schema_data ar))"
  from assms have "i \<in> set (foldl gsc_issues ?F (concat (map snd (gsc_data ar))))"
    by (simp only: analyze_issues_def)
  from foldl_gsc_shape [OF this] show ?thesis
  proof
    assume "i \<in> set ?F"
    then consider (crawl) c where "c \<in> set (crawl_data ar)" "i \<in> set (crawl_issues c)"
      | (cross) "i \<in> set (cross_page (crawl_data ar) Map.empty Map.empty)"
      | (schema) sd where "sd \<in> set (schema_data ar)" "i \<in> set (schema_issues sd)"
      by auto
    then show ?thesis
    proof cases
      case crawl
      with crawl_issues_shape [of i c] show ?thesis by auto
    next
      case cross
      with cross_page_shape [of i "crawl_data ar" Map.empty Map.empty] show ?thesis by auto
    next
      case schema
      with schema_issues_shape [of i sd] show ?thesis by auto
    qed
  next
    assume "url i \<in> gsc_url ` set (concat (map snd (gsc_data ar)))
        \<and> category i = ''GSC Performance'' \<and> issue_type i \<noteq> ''Duplicate Title Tags''"
    then show ?thesis by blast
  qed
qed

lemma crawl_in_analysis:
  assumes "c \<in> set (crawl_data ar)"
  shows "set (crawl_issues c) \<subseteq> set (analyze_issues ar)"
proof -
  let ?F = "concat (map crawl_issues (crawl_data ar))
        @ cross_page (crawl_data ar) Map.empty Map.empty
        @ concat (map schema_issues (schema_data ar))"
  have "set (crawl_issues c) \<subseteq> set ?F" using assms by auto
  also have "\<dots> \<subseteq> set (foldl gsc_issues ?F (concat (map snd (gsc_data ar))))"
    by (rule foldl_gsc_prefix)
  finally show ?thesis by (simp only: analyze_issues_def)
qed

lemma http_issue_value:
  assumes "cm_url c = ''https://x.com/''" and "400 \<le> status_code c"
  shows "new_issue (cm_url c) ''HTTP Error''
           (if 500 \<le> status_code c then ''Critical'' else ''High'') ''Crawlability''
         = \<lparr>url = ''https://x.com/'', issue_type = ''HTTP Error'',
            severity = (if 500 \<le> status_code c then ''Critical'' else ''High''),
            category = ''Crawlability'', status = ''New'', impact_score = 100\<rparr>"
  by (simp add: new_issue_def assms(1) score_http_home)

lemma gsc_example_issue:
  "new_issue ''https://x.com/sale'' ''High Value Page Opportunity'' ''Medium''
     ''GSC Performance'' \<in> set (analyze_issues example_gsc_run)"
  by (simp add: analyze_issues_def example_gsc_run_def schema_issues_def gsc_issues_def
      Let_def float_eval)

lemma new_issue_fields:
  "url (new_issue u t s c) = u"
  "issue_type (new_issue u t s c) = t"
  "severity (new_issue u t s c) = s"
  "category (new_issue u t s c) = c"
  by (simp_all add: new_issue_def)

lemma crawl_issues_rule:
  "i \<in> set (crawl_issues c) \<Longrightarrow> issue_type i \<notin> set gsc_signal_rules"
  apply (simp only: crawl_issues_def Let_def set_append Un_iff)
  apply (elim disjE)
  apply (simp_all add: new_issue_def gsc_signal_rules_def split: if_splits option.splits)
  apply auto
  done

lemma schema_issues_rule:
  "i \<in> set (schema_issues sd) \<Longrightarrow> issue_type i \<notin> set gsc_signal_rules"
  apply (simp only: schema_issues_def Let_def)
  apply (simp add: new_issue_def gsc_signal_rules_def split: if_splits)
  apply auto
  done

lemma cross_page_rule:
  "i \<in> set (cross_page cs ts ms) \<Longrightarrow> issue_type i \<notin> set gsc_signal_rules"
proof (induction cs arbitrary: ts ms)
  case Nil
  then show ?case by simp
next
  case (Cons c cs)
  from cross_page_step [OF Cons.prems] show ?case
  proof (elim disjE exE conjE)
    assume "i \<in> set (cross_page cs (seen_next ts 10 (strip (title c)) (cm_url c))
                       (seen_next ms 20 (strip (meta_description c)) (cm_url c)))"
    from Cons.IH [OF this] show ?thesis .
  qed (simp_all add: new_issue_fields gsc_signal_rules_def)
qed

lemma gsc_issues_step:
  assumes "i \<in> set (gsc_issues found g)"
  shows "i \<in> set found
       \<or> (url i = gsc_url g \<and> category i = ''GSC Performance''
          \<and> (issue_type i \<in> set gsc_signal_rules
             \<or> (\<exists>j \<in> set found. url j = gsc_url g \<and> category j \<noteq> ''GSC Performance'')))"
  using assms
  apply (simp only: gsc_issues_def Let_def set_append Un_iff)
  apply (elim disjE)
  apply (simp_all add: new_issue_fields gsc_signal_rules_def filter_empty_conv
      split: if_splits)
  done

lemma foldl_gsc_urls:
  assumes "\<forall>j \<in> set found.
      (issue_type j \<notin> set gsc_signal_rules \<longrightarrow> url j \<in> S)
      \<and> (issue_type j \<in> set gsc_signal_rules
           \<longrightarrow> category j = ''GSC Performance'' \<and> url j \<in> G)"
    and "gsc_url ` set gs \<subseteq> G"
    and "i \<in> set (foldl gsc_issues found gs)"
  shows "(issue_type i \<notin> set gsc_signal_rules \<longrightarrow> url i \<in> S)
       \<and> (issue_type i \<in> set gsc_signal_rules
            \<longrightarrow> category i = ''GSC Performance'' \<and> url i \<in> G)"
  using assms
proof (induction gs arbitrary: found)
  case Nil
  then show ?case by simp
next
  case (Cons g gs)
  have "\<forall>j \<in> set (gsc_issues found g).
      (issue_type j \<notin> set gsc_signal_rules \<longrightarrow> url j \<in> S)
      \<and> (issue_type j \<in> set gsc_signal_rules
           \<longrightarrow> category j = ''GSC Performance'' \<and> url j \<in> G)"
  proof
    fix j
    assume "j \<in> set (gsc_issues found g)"
    from gsc_issues_step [OF this] Cons.prems(1,2)
    show "(issue_type j \<notin> set gsc_signal_rules \<longrightarrow> url j \<in> S)
      \<and> (issue_type j \<in> set gsc_signal_rules
           \<longrightarrow> category j = ''GSC Performance'' \<and> url j \<in> G)"
      by (simp only: list.set image_insert insert_subset) metis
  qed
  moreover from Cons.prems(2) have "gsc_url ` set gs \<subseteq> G" by simp
  moreover from Cons.prems(3) have "i \<in> set (foldl gsc_issues (gsc_issues found g) gs)"
    by simp
  ultimately show ?case by (rule Cons.IH)
qed

lemma first_passes_urls:
  assumes "i \<in> set (concat (map crawl_issues (crawl_data ar))
        @ cross_page (crawl_data ar) Map.empty Map.empty
        @ concat (map schema_issues (schema_data ar)))"
  shows "issue_type i \<notin> set gsc_signal_rules
       \<and> url i \<in> cm_url ` set (crawl_data ar) \<union> sd_url ` set (schema_data ar)"
proof -
  from assms consider (crawl) c where "c \<in> set (crawl_data ar)" "i \<in> set (crawl_issues c)"
    | (cross) "i \<in> set (cross_page (crawl_data ar) Map.empty Map.empty)"
    | (schema) sd where "sd \<in> set (schema_data ar)" "i \<in> set (schema_issues sd)"
    by auto
  then show ?thesis
  proof cases
    case crawl
    with crawl_issues_shape [of i c] crawl_issues_rule [of i c] show ?thesis by auto
  next
    case cross
    with cross_page_shape [of i "crawl_data ar" Map.empty Map.empty]
      cross_page_rule [of i "crawl_data ar" Map.empty Map.empty]
    show ?thesis by auto
  next
    case schema
    with schema_issues_shape [of i sd] schema_issues_rule [of i sd] show ?thesis by auto
  qed
qed

lemma signal_issue_present:
  "10000 < impressions g \<Longrightarrow>
     new_issue (gsc_url g) ''High Value Page Opportunity'' ''Medium'' ''GSC Performance''
     \<in> set (gsc_issues found g)"
  by (simp only: gsc_issues_def Let_def set_append Un_iff) simp

lemma traffic_issue_present:
  assumes "j \<in> set found" and "url j = gsc_url g" and "category j \<noteq> ''GSC Performance''"
    and "1000 < impressions g"
  shows "new_issue (gsc_url g) ''High Traffic Page with Technical Issues'' ''Critical''
     ''GSC Performance'' \<in> set (gsc_issues found g)"
proof -
  from assms(1-3) have "\<exists>j \<in> set found. url j = gsc_url g \<and> category j \<noteq> ''GSC Performance''"
    by blast
  with assms(4) show ?thesis
    by (simp only: gsc_issues_def Let_def set_append Un_iff filter_empty_conv filter_append) auto
qed

lemma foldl_signal_issue:
  "g \<in> set gs \<Longrightarrow> 10000 < impressions g \<Longrightarrow>
     new_issue (gsc_url g) ''High Value Page Opportunity'' ''Medium'' ''GSC Performance''
     \<in> set (foldl gsc_issues found gs)"
proof (induction gs arbitrary: found)
  case Nil
  then show ?case by simp
next
  case (Cons a gs)
  show ?case
  proof (cases "g = a")
    case True
    with signal_issue_present [OF Cons.prems(2), of found]
      foldl_gsc_prefix [of "gsc_issues found a" gs]
    show ?thesis by auto
  next
    case False
    with Cons.prems(1) have "g \<in> set gs" by simp
    from Cons.IH [OF this Cons.prems(2)] show ?thesis by simp
  qed
qed

lemma foldl_traffic_issue:
  "g \<in> set gs \<Longrightarrow> j \<in> set found \<Longrightarrow> url j = gsc_url g
     \<Longrightarrow> category j \<noteq> ''GSC Performance'' \<Longrightarrow> 1000 < impressions g \<Longrightarrow>
     new_issue (gsc_url g) ''High Traffic Page with Technical Issues'' ''Critical''
       ''GSC Performance'' \<in> set (foldl gsc_issues found gs)"
proof (induction gs arbitrary: found)
  case Nil
  then show ?case by simp
next
  case (Cons a gs)
  show ?case
  proof (cases "g = a")
    case True
    with traffic_issue_present [OF Cons.prems(2-5)]
      foldl_gsc_prefix [of "gsc_issues found a" gs]
    show ?thesis by auto
  next
    case False
    with Cons.prems(1) have "g \<in> set gs" by simp
    moreover from Cons.prems(2) gsc_issues_prefix [of found a]
    have "j \<in> set (gsc_issues found a)" by blast
    ultimately show ?thesis using Cons.IH Cons.prems(3-5) by simp
  qed
qed

lemma signal_in_analysis:
  "g \<in> set (concat (map snd (gsc_data ar))) \<Longrightarrow> 10000 < impressions g \<Longrightarrow>
     new_issue (gsc_url g) ''High Value Page Opportunity'' ''Medium'' ''GSC Performance''
     \<in> set (analyze_issues ar)"
  by (simp only: analyze_issues_def foldl_signal_issue)

lemma traffic_in_analysis:
  assumes "c \<in> set (crawl_data ar)" and "j \<in> set (crawl_issues c)"
    and "g \<in> set (concat (map snd (gsc_data ar)))" and "gsc_url g = cm_url c"
    and "1000 < impressions g"
  shows "new_issue (gsc_url g) ''High Traffic Page with Technical Issues'' ''Critical''
       ''GSC Performance'' \<in> set (analyze_issues ar)"
proof -
  let ?F = "concat (map crawl_issues (crawl_data ar))
        @ cross_page (crawl_data ar) Map.empty Map.empty
        @ concat (map schema_issues (schema_data ar))"
  from assms(1,2) have j: "j \<in> set ?F" by auto
  from crawl_issues_shape [OF assms(2)] assms(4)
  have "url j = gsc_url g" and "category j \<noteq> ''GSC Performance''" by simp_all
  from foldl_traffic_issue [OF assms(3) j this assms(5)] show ?thesis
    by (simp only: analyze_issues_def)
qed

lemma traffic_run_issues:
  "new_issue ''https://x.com/'' ''HTTP Error'' ''Critical'' ''Crawlability''
     \<in> set (analyze_issues example_traffic_run)"
  "new_issue ''https://x.com/'' ''High Traffic Page with Technical Issues'' ''Critical''
     ''GSC Performance'' \<in> set (analyze_issues example_traffic_run)"
  "new_issue ''https://x.com/sale'' ''High Value Page Opportunity'' ''Medium''
     ''GSC Performance'' \<in> set (analyze_issues example_traffic_run)"
proof -
  have c: "example_home \<in> set (crawl_data example_traffic_run)"
    by (simp add: example_traffic_run_def)
  have "400 \<le> status_code example_home" by (simp add: example_home_def)
  from http_issue_present [OF this]
  have h: "new_issue ''https://x.com/'' ''HTTP Error'' ''Critical'' ''Crawlability''
      \<in> set (crawl_issues example_home)"
    by (simp add: example_home_def)
  with crawl_in_analysis [OF c]
  show "new_issue ''https://x.com/'' ''HTTP Error'' ''Critical'' ''Crawlability''
     \<in> set (analyze_issues example_traffic_run)"
    by blast
  from traffic_in_analysis [OF c h, of "\<lparr>gsc_url = ''https://x.com/'', impressions = 20000,
      clicks = 0, ctr = 0, position = 1\<rparr>"]
  show "new_issue ''https://x.com/'' ''High Traffic Page with Technical Issues'' ''Critical''
     ''GSC Performance'' \<in> set (analyze_issues example_traffic_run)"
    by (simp add: example_traffic_run_def example_home_def)
  from signal_in_analysis [of "\<lparr>gsc_url = ''https://x.com/sale'', impressions = 20000,
      clicks = 0, ctr = 0, position = 1\<rparr>" example_traffic_run]
  show "new_issue ''https://x.com/sale'' ''High Value Page Opportunity'' ''Medium''
     ''GSC Performance'' \<in> set (analyze_issues example_traffic_run)"
    by (simp add: example_traffic_run_def)
qed

text \<open>
  Claim C3, as stated: every issue of the analysis has a url of the input audit set, the
  Search Console pass included. That pass takes its urls from the Search Console rows,
  the top pages of the domain, and never looks at the audit set: a row for
  \<open>https://x.com/sale\<close> yields issues for that url in a run that audits
  \<open>https://x.com/\<close> alone.
\<close>

theorem gsc_issue_outside_audit_set:
  "collected_from [''https://x.com/''] example_gsc_run
   \<and> \<not> (\<forall>i \<in> set (analyze_issues example_gsc_run). url i \<in> set [''https://x.com/''])"
proof
  show "collected_from [''https://x.com/''] example_gsc_run"
    by (simp add: collected_from_def example_gsc_run_def)
  have "url (new_issue ''https://x.com/sale'' ''High Value Page Opportunity'' ''Medium''
     ''GSC Performance'') \<notin> set [''https://x.com/'']"
    by (simp add: new_issue_def)
  with gsc_example_issue
  show "\<not> (\<forall>i \<in> set (analyze_issues example_gsc_run). url i \<in> set [''https://x.com/''])"
    by blast
qed

text \<open>
  Claim C3, amended: every issue of the analysis, those of the four signal rules of the
  Search Console pass apart (``High Impressions Low CTR'', ``High Impressions Poor
  Position'', ``High Impressions Zero Clicks'', ``High Value Page Opportunity''), has a
  url of the input audit set: the url of a crawl record or of a schema result, also for
  ``High Traffic Page with Technical Issues'', which the Search Console pass emits only
  for a url that an earlier pass has found an issue for. An issue of the four signal
  rules is of the category ``GSC Performance'' and has the url of a Search Console row,
  which need not be in the audit set.
\<close>

theorem issue_urls_by_rule:
  assumes "collected_from urls_to_audit ar" and "i \<in> set (analyze_issues ar)"
  shows "(issue_type i \<notin> set gsc_signal_rules \<longrightarrow> url i \<in> set urls_to_audit)
       \<and> (issue_type i \<in> set gsc_signal_rules
            \<longrightarrow> category i = ''GSC Performance''
                \<and> url i \<in> gsc_url ` set (concat (map snd (gsc_data ar))))"
proof -
  let ?F = "concat (map crawl_issues (crawl_data ar))
        @ cross_page (crawl_data ar) Map.empty Map.empty
        @ concat (map schema_issues (schema_data ar))"
  let ?S = "cm_url ` set (crawl_data ar) \<union> sd_url ` set (schema_data ar)"
  let ?gs = "concat (map snd (gsc_data ar))"
  have "\<forall>j \<in> set ?F.
      (issue_type j \<notin> set gsc_signal_rules \<longrightarrow> url j \<in> ?S)
      \<and> (issue_type j \<in> set gsc_signal_rules
           \<longrightarrow> category j = ''GSC Performance'' \<and> url j \<in> gsc_url ` set ?gs)"
    using first_passes_urls [of _ ar] by blast
  moreover have "gsc_url ` set ?gs \<subseteq> gsc_url ` set ?gs" by simp
  moreover from assms(2) have "i \<in> set (foldl gsc_issues ?F ?gs)"
    by (simp only: analyze_issues_def)
  ultimately have "(issue_type i \<notin> set gsc_signal_rules \<longrightarrow> url i \<in> ?S)
       \<and> (issue_type i \<in> set gsc_signal_rules
            \<longrightarrow> category i = ''GSC Performance'' \<and> url i \<in> gsc_url ` set ?gs)"
    by (rule foldl_gsc_urls)
  moreover from assms(1) have "?S \<subseteq> set urls_to_audit"
    unfolding collected_from_def using set_take_subset [of 10 urls_to_audit] by blast
  ultimately show ?thesis by blast
qed

theorem issue_urls_by_rule_witness:
  "collected_from [''https://x.com/''] example_traffic_run
   \<and> new_issue ''https://x.com/'' ''HTTP Error'' ''Critical'' ''Crawlability''
       \<in> set (analyze_issues example_traffic_run)
   \<and> url (new_issue ''https://x.com/'' ''HTTP Error'' ''Critical'' ''Crawlability'')
       \<in> set [''https://x.com/'']
   \<and> new_issue ''https://x.com/'' ''High Traffic Page with Technical Issues'' ''Critical''
       ''GSC Performance'' \<in> set (analyze_issues example_traffic_run)
   \<and> url (new_issue ''https://x.com/'' ''High Traffic Page with Technical Issues''
       ''Critical'' ''GSC Performance'') \<in> set [''https://x.com/'']
   \<and> new_issue ''https://x.com/sale'' ''High Value Page Opportunity'' ''Medium''
       ''GSC Performance'' \<in> set (analyze_issues example_traffic_run)
   \<and> url (new_issue ''https://x.com/sale'' ''High Value Page Opportunity'' ''Medium''
       ''GSC Performance'') \<in> gsc_url ` set (concat (map snd (gsc_data example_traffic_run)))"
  using traffic_run_issues
    issue_urls_by_rule [of "[''https://x.com/'']" example_traffic_run
      "new_issue ''https://x.com/'' ''HTTP Error'' ''Critical'' ''Crawlability''"]
    issue_urls_by_rule [of "[''https://x.com/'']" example_traffic_run
      "new_issue ''https://x.com/'' ''High Traffic Page with Technical Issues'' ''Critical''
         ''GSC Performance''"]
    issue_urls_by_rule [of "[''https://x.com/'']" example_traffic_run
      "new_issue ''https://x.com/sale'' ''High Value Page Opportunity'' ''Medium''
         ''GSC Performance''"]
  by (simp add: collected_from_def example_traffic_run_def example_home_def new_issue_fields
      gsc_signal_rules_def)

text \<open>
  Claim C8: a crawl record of \<open>https://x.com/\<close> with status 503 yields an ``HTTP Error''
  issue for that url with severity Critical and impact score 100 (the page is a homepage,
  and 90 * 5.0 / 2.5 = 180 is capped); a status from 400 to 499 gives severity High.
\<close>

theorem http_error_on_homepage:
  assumes "c \<in> set (crawl_data ar)" and "cm_url c = ''https://x.com/''"
    and "status_code c = 503"
  shows "\<lparr>url = ''https://x.com/'', issue_type = ''HTTP Error'', severity = ''Critical'',
          category = ''Crawlability'', status = ''New'', impact_score = 100\<rparr>
           \<in> set (analyze_issues ar)
       \<and> (\<forall>i \<in> set (crawl_issues c). issue_type i = ''HTTP Error''
             \<longrightarrow> severity i = ''Critical'' \<and> impact_score i = 100)
       \<and> (\<forall>d :: crawl_metrics. cm_url d = ''https://x.com/'' \<and> 400 \<le> status_code d \<and> status_code d < 500
             \<longrightarrow> \<lparr>url = ''https://x.com/'', issue_type = ''HTTP Error'', severity = ''High'',
                   category = ''Crawlability'', status = ''New'', impact_score = 100\<rparr>
                  \<in> set (crawl_issues d))"
proof (intro conjI ballI allI impI)
  have "400 \<le> status_code c" using assms(3) by simp
  from http_issue_present [OF this] http_issue_value [OF assms(2) this] assms(3)
  have "\<lparr>url = ''https://x.com/'', issue_type = ''HTTP Error'', severity = ''Critical'',
          category = ''Crawlability'', status = ''New'', impact_score = 100\<rparr>
           \<in> set (crawl_issues c)"
    by simp
  with crawl_in_analysis [OF assms(1)]
  show "\<lparr>url = ''https://x.com/'', issue_type = ''HTTP Error'', severity = ''Critical'',
          category = ''Crawlability'', status = ''New'', impact_score = 100\<rparr>
           \<in> set (analyze_issues ar)"
    by blast
next
  fix i
  assume i: "i \<in> set (crawl_issues c)" "issue_type i = ''HTTP Error''"
  from http_issue_shape [OF i] assms(3) show "severity i = ''Critical''" by simp
  from crawl_issues_shape [OF i(1)] i(2) assms(2) show "impact_score i = 100"
    by (simp add: score_http_home)
next
  fix d :: crawl_metrics
  assume d: "cm_url d = ''https://x.com/'' \<and> 400 \<le> status_code d \<and> status_code d < 500"
  then have "400 \<le> status_code d" by simp
  from http_issue_present [OF this] http_issue_value [OF _ this] d
  show "\<lparr>url = ''https://x.com/'', issue_type = ''HTTP Error'', severity = ''High'',
          category = ''Crawlability'', status = ''New'', impact_score = 100\<rparr>
           \<in> set (crawl_issues d)"
    by simp
qed

theorem http_error_on_homepage_witness:
  "\<lparr>url = ''https://x.com/'', issue_type = ''HTTP Error'', severity = ''Critical'',
     category = ''Crawlability'', status = ''New'', impact_score = 100\<rparr>
     \<in> set (analyze_issues example_home_run)"
  using http_error_on_homepage [of example_home example_home_run]
  by (simp add: example_home_run_def example_home_def)



















section \<open>The summary\<close>

lemma power_int_2_pos: "0 < (2::rat) powi k"
  by (simp add: power_int_def)

lemma round_half_even_nonneg: "0 \<le> q \<Longrightarrow> 0 \<le> round_half_even q"
  by (auto simp: round_half_even_def Let_def)

lemma fl_nonneg: "0 \<le> q \<Longrightarrow> 0 \<le> fl q"
proof -
  assume q: "0 \<le> q"
  have "0 \<le> q / 2 powi (binade q - 52)"
    using q power_int_2_pos [of "binade q - 52"] by simp
  then have "0 \<le> round_half_even (q / 2 powi (binade q - 52))"
    by (rule round_half_even_nonneg)
  then show ?thesis
    using power_int_2_pos [of "binade q - 52"] by (simp add: fl_def Let_def)
qed

lemma fadd_nonneg: "0 \<le> a \<Longrightarrow> 0 \<le> b \<Longrightarrow> 0 \<le> fadd a b"
  by (simp add: fadd_def fl_nonneg)

lemma page_weight_nonneg: "0 \<le> page_weight_of (classify_page_type u)"
proof -
  have "\<forall>(w, l) \<in> {(5, 5), (9 / 2, 9 / 2), (4, 4),
            (5404319552844595 / 1125899906842624, 24 / 5), (5 / 2, 5 / 2), (3, 3), (2, 2)}.
          (0::rat) \<le> w \<and> (0::rat) \<le> l"
    by simp
  from this [THEN bspec, OF weight_cases [OF classify_page_type_range], of u]
  show ?thesis by (simp only: prod.case)
qed

lemma weigh_page_weight_nonneg:
  "0 \<le> snd totals \<Longrightarrow> 0 \<le> snd (weigh_page totals entry)"
  by (cases totals; cases entry) (simp add: weigh_page_def Let_def fadd_nonneg page_weight_nonneg)

lemma foldl_weigh_page_nonneg:
  "0 \<le> snd totals \<Longrightarrow> 0 \<le> snd (foldl weigh_page totals entries)"
  by (induction entries arbitrary: totals) (simp_all add: weigh_page_weight_nonneg)

lemma weigh_clean_page_nonneg:
  "0 \<le> tw \<Longrightarrow> 0 \<le> weigh_clean_page d tw c"
  by (simp add: weigh_clean_page_def Let_def fadd_nonneg page_weight_nonneg)

lemma foldl_weigh_clean_nonneg:
  "0 \<le> tw \<Longrightarrow> 0 \<le> foldl (weigh_clean_page d) tw cs"
  by (induction cs arbitrary: tw) (simp_all add: weigh_clean_page_nonneg)

lemma total_weight_nonneg: "0 \<le> snd (weighted_totals ar)"
  by (simp add: weighted_totals_def Let_def split_beta foldl_weigh_clean_nonneg
      foldl_weigh_page_nonneg)

lemma keys_group_issue: "fst ` set (group_issue i d) = insert (url i) (fst ` set d)"
  by (induction i d rule: group_issue.induct) (simp_all add: insert_commute)

lemma keys_foldl_group:
  "fst ` set (foldl (\<lambda>d issue. group_issue issue d) d found) = fst ` set d \<union> url ` set found"
  by (induction found arbitrary: d) (auto simp: keys_group_issue)

lemma keys_page_issues: "fst ` set (page_issues_of found) = url ` set found"
  by (simp add: page_issues_of_def keys_foldl_group)

lemma foldl_weigh_clean:
  "foldl (weigh_clean_page d) tw cs =
     foldl fadd tw (map (\<lambda>c. page_weight_of (classify_page_type (cm_url c)))
                        (filter (\<lambda>c. cm_url c \<notin> fst ` set d) cs))"
  by (induction cs arbitrary: tw) (simp_all add: weigh_clean_page_def Let_def)

lemma home_run_totals: "weighted_totals example_home_run = (0, 5)"
  by (simp add: weighted_totals_def example_home_run_def example_home_def page_issues_of_def
      weigh_clean_page_def classify_home weight_home_other float_eval)

text \<open>
  Claim C2: a crawled url with no issue adds its page weight to \<open>total_weight\<close> and nothing
  to \<open>total_weighted_impact\<close>, and whenever \<open>total_weight\<close> is not zero the score of the
  summary is \<open>max(0, 100 - (total_weighted_impact / total_weight) / 50)\<close>. The first
  component of \<open>weighted_totals\<close> is the impact after the loop over the pages with issues;
  the second is the weight after that loop, to which the weights of the clean pages are
  added in crawl order. The weight is never negative, so ``not zero'' is the test
  \<open>total_weight > 0\<close> of the code.
\<close>

theorem clean_pages_weigh_in:
  "fst (weighted_totals ar) = fst (foldl weigh_page (0, 0) (page_issues_of (issues ar)))
   \<and> snd (weighted_totals ar) =
       foldl fadd (snd (foldl weigh_page (0, 0) (page_issues_of (issues ar))))
         (map (\<lambda>c. page_weight_of (classify_page_type (cm_url c)))
              (filter (\<lambda>c. cm_url c \<notin> url ` set (issues ar)) (crawl_data ar)))
   \<and> (snd (weighted_totals ar) \<noteq> 0 \<longrightarrow>
        seo_score (generate_audit_summary ar) =
          max 0 (fsub 100 (fdiv (fdiv (fst (weighted_totals ar)) (snd (weighted_totals ar))) 50)))"
proof (intro conjI impI)
  show "fst (weighted_totals ar) = fst (foldl weigh_page (0, 0) (page_issues_of (issues ar)))"
    by (simp add: weighted_totals_def Let_def split_beta)
  show "snd (weighted_totals ar) =
       foldl fadd (snd (foldl weigh_page (0, 0) (page_issues_of (issues ar))))
         (map (\<lambda>c. page_weight_of (classify_page_type (cm_url c)))
              (filter (\<lambda>c. cm_url c \<notin> url ` set (issues ar)) (crawl_data ar)))"
    by (simp add: weighted_totals_def Let_def split_beta foldl_weigh_clean keys_page_issues)
  assume "snd (weighted_totals ar) \<noteq> 0"
  with total_weight_nonneg [of ar] have "0 < snd (weighted_totals ar)" by simp
  then show "seo_score (generate_audit_summary ar) =
      max 0 (fsub 100 (fdiv (fdiv (fst (weighted_totals ar)) (snd (weighted_totals ar))) 50))"
    by (simp add: generate_audit_summary_def Let_def split_beta)
qed

theorem clean_pages_weigh_in_witness:
  "snd (weighted_totals example_home_run) = 5
   \<and> seo_score (generate_audit_summary example_home_run)
       = max 0 (fsub 100 (fdiv (fdiv 0 5) 50))"
  using clean_pages_weigh_in [of example_home_run]
  by (simp add: home_run_totals)

text \<open>
  Claim C9: with no crawl record and no issue the summary is produced, with score 100 and
  no issues counted. Nothing in \<open>_generate_audit_summary\<close> can raise: its divisions are
  guarded by a test of the divisor, so the model is a total function and the claim is
  about its value.
\<close>

theorem empty_run_summary:
  assumes "crawl_data ar = []" and "issues ar = []"
  shows "seo_score (generate_audit_summary ar) = 100
       \<and> total_issues (generate_audit_summary ar) = 0"
  using assms
  by (simp add: generate_audit_summary_def weighted_totals_def page_issues_of_def Let_def)

theorem empty_run_summary_witness:
  "seo_score (generate_audit_summary example_empty_run) = 100
   \<and> total_issues (generate_audit_summary example_empty_run) = 0"
  using empty_run_summary [of example_empty_run]
  by (simp add: example_empty_run_def)

section \<open>The team router\<close>

lemma team_matches_issues [simp]:
  "team_matches (d\<lparr>team_issues := x\<rparr>) t = team_matches d t"
  by (simp add: team_matches_def)

lemma team_of_routed [simp]: "team_of (routed r found teams) t = team_of teams t"
  by (induction teams) (auto simp: team_of_def routed_def)

lemma categorize_issue_team_of:
  "categorize_issue teams i = append_issue (team_of teams (issue_type i)) i teams"
  by (simp add: categorize_issue_def team_of_def split: option.splits prod.splits)

lemma team_of_key: "''tech_team'' \<in> fst ` set teams \<Longrightarrow> team_of teams t \<in> fst ` set teams"
proof -
  assume tech: "''tech_team'' \<in> fst ` set teams"
  show ?thesis
  proof (cases "find (\<lambda>(team, data). team_matches data t) teams")
    case None
    with tech show ?thesis by (simp add: team_of_def)
  next
    case (Some p)
    then have "p \<in> set teams" by (metis find_Some_iff nth_mem)
    with Some show ?thesis by (cases p) (force simp: team_of_def)
  qed
qed

lemma routed_skip: "r i \<notin> fst ` set teams \<Longrightarrow> routed r (found @ [i]) teams = routed r found teams"
  by (induction teams) (auto simp: routed_def)

lemma append_issue_routed:
  "distinct (map fst teams) \<Longrightarrow> r i \<in> fst ` set teams \<Longrightarrow>
     append_issue (r i) i (routed r found teams) = routed r (found @ [i]) teams"
proof (induction teams)
  case Nil
  then show ?case by simp
next
  case (Cons p teams)
  obtain k d where p: "p = (k, d)" by (cases p)
  show ?case
  proof (cases "k = r i")
    case True
    with Cons.prems p have "r i \<notin> fst ` set teams" by auto
    with routed_skip [of r i teams found] True p show ?thesis
      by (simp add: routed_def)
  next
    case False
    with Cons.prems p have "distinct (map fst teams)" "r i \<in> fst ` set teams" by auto
    with Cons.IH False p show ?thesis
      by (simp add: routed_def)
  qed
qed

lemma foldl_categorize:
  assumes "distinct (map fst teams)" and "''tech_team'' \<in> fst ` set teams"
  shows "foldl categorize_issue (routed (\<lambda>i. team_of teams (issue_type i)) xs teams) ys
       = routed (\<lambda>i. team_of teams (issue_type i)) (xs @ ys) teams"
proof (induction ys arbitrary: xs)
  case Nil
  show ?case by simp
next
  case (Cons y ys)
  let ?r = "\<lambda>i. team_of teams (issue_type i)"
  have "categorize_issue (routed ?r xs teams) y = routed ?r (xs @ [y]) teams"
    using append_issue_routed [OF assms(1), of ?r y xs] team_of_key [OF assms(2)]
    by (simp add: categorize_issue_team_of)
  with Cons.IH [of "xs @ [y]"] show ?case by simp
qed

lemma team_bucket_routed:
  "map_of teams k = Some d \<Longrightarrow>
     team_bucket k (map (\<lambda>(team, data). (team, team_metrics data)) (routed r found teams))
       = team_issues d @ filter (\<lambda>i. r i = k) found"
  by (induction teams)
    (auto simp: team_bucket_def routed_def team_metrics_def Let_def split: if_splits)

lemma filter_three:
  assumes "\<forall>i \<in> set found. f i \<in> {a, b, c}" and "a \<noteq> b" "a \<noteq> c" "b \<noteq> c"
  shows "mset (filter (\<lambda>i. f i = a) found) + mset (filter (\<lambda>i. f i = b) found)
          + mset (filter (\<lambda>i. f i = c) found) = mset found"
  using assms by (induction found) auto

lemma routed_nothing: "routed r [] teams = teams"
  by (induction teams) (auto simp: routed_def)

lemma team_keys:
  "map fst team_categories = [''tech_team'', ''marketing_team'', ''design_team'']"
  by (simp add: team_categories_def)

lemma team_start:
  "k \<in> {''tech_team'', ''marketing_team'', ''design_team''} \<Longrightarrow>
     \<exists>d. map_of team_categories k = Some d \<and> team_issues d = []"
  by (auto simp: team_categories_def new_team_def)

lemma categorize_routed:
  "categorize_issues_by_team found =
     map (\<lambda>(team, data). (team, team_metrics data))
       (routed (\<lambda>i. team_of team_categories (issue_type i)) found team_categories)"
proof -
  have "distinct (map fst team_categories)" "''tech_team'' \<in> fst ` set team_categories"
    using team_keys by (simp_all flip: set_map)
  from foldl_categorize [OF this, of "[]" found] show ?thesis
    by (simp add: categorize_issues_by_team_def routed_nothing)
qed

lemma team_bucket_filter:
  assumes "k \<in> {''tech_team'', ''marketing_team'', ''design_team''}"
  shows "team_bucket k (categorize_issues_by_team found)
       = filter (\<lambda>i. team_of team_categories (issue_type i) = k) found"
proof -
  from team_start [OF assms] obtain d
    where "map_of team_categories k = Some d" "team_issues d = []" by blast
  from team_bucket_routed [OF this(1)] this(2) show ?thesis
    by (simp add: categorize_routed)
qed

lemma team_of_three:
  "team_of team_categories t \<in> {''tech_team'', ''marketing_team'', ''design_team''}"
proof -
  have "''tech_team'' \<in> fst ` set team_categories"
    using team_keys by (simp flip: set_map)
  from team_of_key [OF this, of t] team_keys show ?thesis
    by (simp flip: set_map)
qed

lemma alt_team: "team_of team_categories ''Images Without Alt Text'' = ''design_team''"
  by code_simp

lemma new_team_none:
  "\<forall>(team, data) \<in> set team_categories. \<not> team_matches data ''Unknown Rule''"
  by code_simp

lemma new_team_tech: "team_of team_categories ''Unknown Rule'' = ''tech_team''"
  by code_simp

text \<open>
  Claim C4: for every list of issues, the router puts each issue in exactly one of the
  three buckets; an issue that no team matches lands in the tech bucket, none is dropped
  and none is put in two buckets. The buckets are the three filters of the input by
  \<open>team_of\<close>, a function of the issue type with values among the three keys: so, as
  multisets, the buckets add up to the input.
\<close>

theorem every_issue_in_one_team:
  "mset (team_bucket ''tech_team'' (categorize_issues_by_team found))
     + mset (team_bucket ''marketing_team'' (categorize_issues_by_team found))
     + mset (team_bucket ''design_team'' (categorize_issues_by_team found)) = mset found
   \<and> (\<forall>k \<in> {''tech_team'', ''marketing_team'', ''design_team''}.
         team_bucket k (categorize_issues_by_team found)
           = filter (\<lambda>i. team_of team_categories (issue_type i) = k) found)
   \<and> (\<forall>i \<in> set found.
         (\<forall>(team, data) \<in> set team_categories. \<not> team_matches data (issue_type i))
           \<longrightarrow> i \<in> set (team_bucket ''tech_team'' (categorize_issues_by_team found)))
   \<and> map fst (categorize_issues_by_team found)
       = [''tech_team'', ''marketing_team'', ''design_team'']"
proof (intro conjI ballI impI)
  have "\<forall>i \<in> set found. team_of team_categories (issue_type i)
      \<in> {''tech_team'', ''marketing_team'', ''design_team''}"
    using team_of_three by blast
  from filter_three [OF this]
  show "mset (team_bucket ''tech_team'' (categorize_issues_by_team found))
     + mset (team_bucket ''marketing_team'' (categorize_issues_by_team found))
     + mset (team_bucket ''design_team'' (categorize_issues_by_team found)) = mset found"
    by (simp add: team_bucket_filter)
next
  fix k :: string
  assume "k \<in> {''tech_team'', ''marketing_team'', ''design_team''}"
  then show "team_bucket k (categorize_issues_by_team found)
           = filter (\<lambda>i. team_of team_categories (issue_type i) = k) found"
    by (rule team_bucket_filter)
next
  fix i
  assume i: "i \<in> set found"
    and "\<forall>(team, data) \<in> set team_categories. \<not> team_matches data (issue_type i)"
  then have "find (\<lambda>(team, data). team_matches data (issue_type i)) team_categories = None"
    by (auto simp: find_None_iff)
  then have "team_of team_categories (issue_type i) = ''tech_team''"
    by (simp add: team_of_def)
  with i show "i \<in> set (team_bucket ''tech_team'' (categorize_issues_by_team found))"
    by (simp add: team_bucket_filter)
next
  show "map fst (categorize_issues_by_team found)
       = [''tech_team'', ''marketing_team'', ''design_team'']"
    using team_keys by (simp add: categorize_routed routed_def split_beta comp_def)
qed

theorem every_issue_in_one_team_witness:
  "team_bucket ''design_team'' (categorize_issues_by_team [example_alt_issue, example_new_issue])
     = [example_alt_issue]
   \<and> example_new_issue
       \<in> set (team_bucket ''tech_team''
                (categorize_issues_by_team [example_alt_issue, example_new_issue]))"
  using every_issue_in_one_team [of "[example_alt_issue, example_new_issue]"]
    alt_team new_team_none new_team_tech
  by (simp add: example_alt_issue_def example_new_issue_def)

end
